theory Spec2Isabelle
  imports Main
begin

section \<open>SafarSorted inquiry API: a shallow embedding of server.js\<close>

text \<open>
  The embedding follows \<^verbatim>\<open>src/server.js\<close> handler by handler. Conventions:
  \<^item> a JavaScript string is a \<^typ>\<open>string\<close>, one \<^typ>\<open>char\<close> per code unit, so the
    code units are those below 256;
  \<^item> a JavaScript number that the code uses as an integer (ids, \<^verbatim>\<open>lastId\<close>,
    millisecond clock readings) is an \<^typ>\<open>int\<close>; the rounding of IEEE doubles beyond
    \<open>2^53\<close> and fractional JSON numbers are not modelled;
  \<^item> a field of a parsed request body is a \<open>jsval\<close>, a JSON scalar or
    \<^verbatim>\<open>undefined\<close> (the key is absent); arrays and nested objects are not modelled;
  \<^item> the clock (\<^verbatim>\<open>Date.now()\<close>, \<^verbatim>\<open>new Date()\<close>) is an explicit argument of
    every handler that reads it, and an ISO time stamp is the instant it renders;
  \<^item> the JSON file is a \<open>document option\<close>, \<open>None\<close> for a file that is missing
    or does not parse; a handler returns its response together with the document it
    hands to \<^verbatim>\<open>writeData\<close>, or \<open>None\<close> when it does not write. A failing disk
    write is not modelled.
\<close>

subsection \<open>JavaScript values\<close>

datatype jsval = JUndefined | JNull | JBool bool | JNum int | JStr string

text \<open>A parsed request body: reading a key that is absent gives \<^verbatim>\<open>undefined\<close>.\<close>

type_synonym body = "string \<Rightarrow> jsval"

definition empty_body :: body where
  "empty_body = (\<lambda>key. JUndefined)"

fun truthy :: "jsval \<Rightarrow> bool" where
  "truthy JUndefined = False"
| "truthy JNull = False"
| "truthy (JBool b) = b"
| "truthy (JNum n) = (n \<noteq> 0)"
| "truthy (JStr s) = (s \<noteq> [])"

text \<open>\<^verbatim>\<open>a || b\<close>\<close>

definition js_or :: "jsval \<Rightarrow> jsval \<Rightarrow> jsval" where
  "js_or a b = (if truthy a then a else b)"

text \<open>The regular expression classes \<^verbatim>\<open>\s\<close> and \<^verbatim>\<open>[0-9]\<close> on code units below 256:
  \<^verbatim>\<open>\s\<close> is TAB, LF, VT, FF, CR, space and the no-break space.\<close>

definition is_space :: "char \<Rightarrow> bool" where
  "is_space c = (let n = (of_char c :: nat) in (9 \<le> n \<and> n \<le> 13) \<or> n = 32 \<or> n = 160)"

definition is_digit :: "char \<Rightarrow> bool" where
  "is_digit c = (let n = (of_char c :: nat) in 48 \<le> n \<and> n \<le> 57)"

text \<open>
  \<^verbatim>\<open>parseInt(string)\<close> with no radix, after ECMAScript: skip leading white space, read
  a sign, read a \<^verbatim>\<open>0x\<close> or \<^verbatim>\<open>0X\<close> prefix (radix 16, else 10), take the longest
  prefix of digits of the radix; no digit gives \<^verbatim>\<open>NaN\<close>, here \<open>None\<close>.
\<close>

definition digit_value :: "char \<Rightarrow> nat" where
  "digit_value c =
     (let n = (of_char c :: nat)
      in if 48 \<le> n \<and> n \<le> 57 then n - 48
         else if 97 \<le> n \<and> n \<le> 122 then n - 87
         else if 65 \<le> n \<and> n \<le> 90 then n - 55
         else 36)"

definition parseInt :: "string \<Rightarrow> int option" where
  "parseInt inputString =
     (let s = dropWhile is_space inputString;
          sign = (case s of c # _ \<Rightarrow> if c = CHR ''-'' then - 1 else (1::int) | [] \<Rightarrow> 1);
          s1 = (case s of c # r \<Rightarrow> if c = CHR ''+'' \<or> c = CHR ''-'' then r else s | [] \<Rightarrow> s);
          hex = (case s1 of a # b # _ \<Rightarrow> a = CHR ''0'' \<and> (b = CHR ''x'' \<or> b = CHR ''X'')
                 | _ \<Rightarrow> False);
          R = (if hex then 16 else 10);
          s2 = (if hex then drop 2 s1 else s1);
          z = takeWhile (\<lambda>c. digit_value c < R) s2
      in if z = [] then None
         else Some (sign * int (foldl (\<lambda>a c. a * R + digit_value c) 0 z)))"

text \<open>
  \<^verbatim>\<open>parseInt(v)\<close> for a body value: the argument is converted to a string first. An
  integer number prints as its decimal digits and parses back to itself (numbers from
  \<open>10^21\<close> on print with an exponent and are outside the model); \<^verbatim>\<open>true\<close>,
  \<^verbatim>\<open>false\<close>, \<^verbatim>\<open>null\<close> and \<^verbatim>\<open>undefined\<close> print as words without a digit.
\<close>

fun parseInt_val :: "jsval \<Rightarrow> int option" where
  "parseInt_val (JStr s) = parseInt s"
| "parseInt_val (JNum n) = Some n"
| "parseInt_val (JBool b) = None"
| "parseInt_val JNull = None"
| "parseInt_val JUndefined = None"

text \<open>\<^verbatim>\<open>s.split(sep)\<close> for a separator of one character: every occurrence splits.\<close>

fun js_split :: "char \<Rightarrow> string \<Rightarrow> string list" where
  "js_split sep [] = [[]]"
| "js_split sep (c # cs) =
     (if c = sep then [] # js_split sep cs
      else (case js_split sep cs of p # ps \<Rightarrow> (c # p) # ps | [] \<Rightarrow> [[c]]))"

text \<open>\<^verbatim>\<open>xs[i]\<close>: \<^verbatim>\<open>undefined\<close>, here \<open>None\<close>, beyond the end.\<close>

definition at_index :: "'a list \<Rightarrow> nat \<Rightarrow> 'a option" where
  "at_index xs i = (if i < length xs then Some (xs ! i) else None)"

subsection \<open>Responses and the stored document\<close>

type_synonym timestamp = int

record inquiry =
  id' :: int
  name :: jsval
  phone :: string
  email :: jsval
  travelers :: "int option"
  destination :: jsval
  travel_date :: jsval
  traveler_type :: jsval
  message :: jsval
  status :: jsval
  notes' :: jsval
  created_at :: timestamp
  updated_at :: timestamp

text \<open>\<open>travelers\<close> holds the number \<^verbatim>\<open>parseInt\<close> returned: \<open>None\<close> is \<^verbatim>\<open>NaN\<close>, which
  \<^verbatim>\<open>JSON.stringify\<close> writes to the file as \<^verbatim>\<open>null\<close>.\<close>

record document =
  inquiries :: "inquiry list"
  lastId :: int

text \<open>The JSON bodies the handlers send: \<^verbatim>\<open>{error}\<close>, \<^verbatim>\<open>{success, message, id}\<close>,
  \<^verbatim>\<open>{success, message, inquiry}\<close>, \<^verbatim>\<open>{success, message}\<close> and \<^verbatim>\<open>{inquiries}\<close>.\<close>

datatype payload =
    ErrorBody string
  | Submitted string int
  | Updated string inquiry
  | Deleted string
  | Listing "inquiry list"

datatype response = Response (code: nat) (sent: payload)

subsection \<open>Rate limiting (lines 42-56)\<close>

text \<open>
  \<^verbatim>\<open>rateLimitStore\<close> is a \<^verbatim>\<open>Map\<close> from the client key to the array of instants of the
  requests let through. \<open>apiLimiter\<close> returns \<open>None\<close> when it calls \<^verbatim>\<open>next()\<close> and
  the response when it answers itself, together with the table afterwards.
\<close>

type_synonym 'k rateLimitStore = "'k \<rightharpoonup> int list"

text \<open>\<^verbatim>\<open>rateLimitStore.get(ip) || []\<close>\<close>

definition requests_of :: "'k rateLimitStore \<Rightarrow> 'k \<Rightarrow> int list" where
  "requests_of store ip = (case store ip of None \<Rightarrow> [] | Some r \<Rightarrow> r)"

definition recentRequests :: "int \<Rightarrow> int list \<Rightarrow> int list" where
  "recentRequests now requests = filter (\<lambda>time. now - time < 60000) requests"

definition too_many :: response where
  "too_many = Response 429 (ErrorBody ''Too many requests, please try again later.'')"

definition apiLimiter ::
  "'k \<Rightarrow> int \<Rightarrow> 'k rateLimitStore \<Rightarrow> response option \<times> 'k rateLimitStore" where
  "apiLimiter ip now store =
     (let requests = requests_of store ip;
          recent = recentRequests now requests
      in if length recent \<ge> 30 then (Some too_many, store)
         else (None, store(ip \<mapsto> recent @ [now])))"

text \<open>A run of calls from one key at the given instants: the outcomes in order, and the
  table at the end.\<close>

fun calls ::
  "'k \<Rightarrow> int list \<Rightarrow> 'k rateLimitStore \<Rightarrow> response option list \<times> 'k rateLimitStore" where
  "calls ip [] store = ([], store)"
| "calls ip (t # ts) store =
     (let (r, store') = apiLimiter ip t store;
          (rs, store'') = calls ip ts store'
      in (r # rs, store''))"

subsection \<open>The store (lines 62-85)\<close>

definition empty_document :: document where
  "empty_document = \<lparr>inquiries = [], lastId = 0\<rparr>"

definition readData :: "document option \<Rightarrow> document" where
  "readData file = (case file of Some data \<Rightarrow> data | None \<Rightarrow> empty_document)"

text \<open>The file after a handler: what it wrote, or the file as it was.\<close>

definition written :: "document option \<Rightarrow> document option \<Rightarrow> document option" where
  "written file w = (case w of Some data \<Rightarrow> Some data | None \<Rightarrow> file)"

subsection \<open>Submit inquiry (lines 105-154)\<close>

text \<open>\<^verbatim>\<open>/^[\+]?[0-9]{10,15}$/\<close>: an optional plus sign, then 10 to 15 digits, and nothing
  else.\<close>

definition phone_pattern :: "string \<Rightarrow> bool" where
  "phone_pattern s =
     (let digits = (case s of c # r \<Rightarrow> if c = CHR ''+'' then r else s | [] \<Rightarrow> s)
      in 10 \<le> length digits \<and> length digits \<le> 15 \<and> list_all is_digit digits)"

text \<open>\<^verbatim>\<open>phone.replace(/\s/g, '')\<close>\<close>

definition strip_spaces :: "string \<Rightarrow> string" where
  "strip_spaces s = filter (\<lambda>c. \<not> is_space c) s"

text \<open>
  The two clock readings are those of \<^verbatim>\<open>created_at\<close> and \<^verbatim>\<open>updated_at\<close>. A phone that
  is truthy and not a string has no \<^verbatim>\<open>replace\<close> method: the call throws, and the
  \<^verbatim>\<open>catch\<close> answers 500. \<^verbatim>\<open>data.lastId++\<close> is the integer successor: that is what the
  increment of a double gives for a \<open>lastId\<close> from \<open>- 2^53\<close> to below \<open>2^53\<close>, and
  the definition stands for the code in that range only.
\<close>

definition post_inquiry ::
  "body \<Rightarrow> timestamp \<Rightarrow> timestamp \<Rightarrow> document option \<Rightarrow> response \<times> document option" where
  "post_inquiry b t_created t_updated file =
     (if \<not> truthy (b ''name'') \<or> \<not> truthy (b ''phone'') \<or> \<not> truthy (b ''travelers'')
         \<or> \<not> truthy (b ''destination'')
      then (Response 400 (ErrorBody ''Missing required fields''), None)
      else (case b ''phone'' of
        JStr p \<Rightarrow>
          (let cleanPhone = strip_spaces p
           in if \<not> phone_pattern cleanPhone
              then (Response 400 (ErrorBody ''Invalid phone number''), None)
              else
                (let data = readData file;
                     data1 = data\<lparr>lastId := lastId data + 1\<rparr>;
                     inquiry = \<lparr>id' = lastId data1,
                                name = b ''name'',
                                phone = cleanPhone,
                                email = js_or (b ''email'') (JStr ''''),
                                travelers = parseInt_val (b ''travelers''),
                                destination = b ''destination'',
                                travel_date = js_or (b ''travelDate'') JNull,
                                traveler_type = js_or (b ''travelerType'') JNull,
                                message = js_or (b ''message'') (JStr ''''),
                                status = JStr ''new'',
                                notes' = JNull,
                                created_at = t_created,
                                updated_at = t_updated\<rparr>;
                     data2 = data1\<lparr>inquiries := inquiries data1 @ [inquiry]\<rparr>
                 in (Response 201 (Submitted ''Inquiry submitted successfully'' (id' inquiry)),
                     Some data2)))
      | _ \<Rightarrow> (Response 500 (ErrorBody ''Failed to submit inquiry''), None)))"

subsection \<open>Admin listing (lines 157-186)\<close>

text \<open>\<^verbatim>\<open>process.env.X || 'default'\<close>: an unset or empty variable gives the default.\<close>

definition env_or :: "string option \<Rightarrow> string \<Rightarrow> string" where
  "env_or v d = (case v of None \<Rightarrow> d | Some s \<Rightarrow> if s = [] then d else s)"

definition starts_with :: "string \<Rightarrow> string \<Rightarrow> bool" where
  "starts_with s p = (take (length p) s = p)"

text \<open>
  \<open>fromBase64\<close> stands for \<^verbatim>\<open>Buffer.from(_, 'base64').toString('ascii')\<close>, a function of
  the platform and a parameter here. \<open>env_user\<close> and \<open>env_pass\<close> are the environment
  variables \<^verbatim>\<open>ADMIN_USER\<close> and \<^verbatim>\<open>ADMIN_PASS\<close>; \<open>authHeader\<close> is the
  \<^verbatim>\<open>Authorization\<close> header, \<open>None\<close> when the request has none. The listing is
  sorted by \<^verbatim>\<open>created_at\<close>, newest first, by a stable sort.
\<close>

definition get_admin_inquiries ::
  "(string \<Rightarrow> string) \<Rightarrow> string option \<Rightarrow> string option \<Rightarrow> string option
     \<Rightarrow> document option \<Rightarrow> response" where
  "get_admin_inquiries fromBase64 env_user env_pass authHeader file =
     (case authHeader of
        None \<Rightarrow> Response 401 (ErrorBody ''Unauthorized'')
      | Some h \<Rightarrow>
          if h = [] \<or> \<not> starts_with h ''Basic ''
          then Response 401 (ErrorBody ''Unauthorized'')
          else (case at_index (js_split CHR '' '' h) 1 of
            None \<Rightarrow> Response 500 (ErrorBody ''Failed to fetch inquiries'')
          | Some base64Credentials \<Rightarrow>
              (let credentials = fromBase64 base64Credentials;
                   parts = js_split CHR '':'' credentials;
                   username = at_index parts 0;
                   password = at_index parts 1;
                   adminUser = env_or env_user ''Mehul20020'';
                   adminPass = env_or env_pass ''Ninja2002@''
               in if username \<noteq> Some adminUser \<or> password \<noteq> Some adminPass
                  then Response 401 (ErrorBody ''Invalid credentials'')
                  else Response 200
                         (Listing (sort_key (\<lambda>i. - created_at i) (inquiries (readData file)))))))"

subsection \<open>Update inquiry (lines 189-211)\<close>

text \<open>\<^verbatim>\<open>i.id === parseInt(id)\<close>: \<^verbatim>\<open>NaN\<close> equals no id.\<close>

definition id_matches :: "int option \<Rightarrow> inquiry \<Rightarrow> bool" where
  "id_matches n i = (n = Some (id' i))"

text \<open>\<^verbatim>\<open>find\<close> returns the first match, an object of the array, and the handler assigns
  to its fields: the first match is replaced where it stands.\<close>

fun replace_first :: "(inquiry \<Rightarrow> bool) \<Rightarrow> inquiry \<Rightarrow> inquiry list \<Rightarrow> inquiry list" where
  "replace_first P y [] = []"
| "replace_first P y (x # xs) = (if P x then y # xs else x # replace_first P y xs)"

definition put_admin_inquiry ::
  "string \<Rightarrow> body \<Rightarrow> timestamp \<Rightarrow> document option \<Rightarrow> response \<times> document option" where
  "put_admin_inquiry idParam b now file =
     (let data = readData file
      in case find (id_matches (parseInt idParam)) (inquiries data) of
           Some inquiry \<Rightarrow>
             (let inquiry1 = inquiry\<lparr>status := js_or (b ''status'') (status inquiry)\<rparr>;
                  inquiry2 = inquiry1\<lparr>notes' := (if b ''notes'' \<noteq> JUndefined then b ''notes''
                                                 else notes' inquiry1)\<rparr>;
                  inquiry3 = inquiry2\<lparr>updated_at := now\<rparr>;
                  data1 = data\<lparr>inquiries :=
                            replace_first (id_matches (parseInt idParam)) inquiry3 (inquiries data)\<rparr>
              in (Response 200 (Updated ''Inquiry updated'' inquiry3), Some data1))
         | None \<Rightarrow> (Response 404 (ErrorBody ''Inquiry not found''), None))"

subsection \<open>Delete inquiry (lines 214-232)\<close>

definition delete_admin_inquiry ::
  "string \<Rightarrow> document option \<Rightarrow> response \<times> document option" where
  "delete_admin_inquiry idParam file =
     (let data = readData file;
          initialLength = length (inquiries data);
          data1 = data\<lparr>inquiries :=
                    filter (\<lambda>i. \<not> id_matches (parseInt idParam) i) (inquiries data)\<rparr>
      in if length (inquiries data1) < initialLength
         then (Response 200 (Deleted ''Inquiry deleted''), Some data1)
         else (Response 404 (ErrorBody ''Inquiry not found''), None))"

subsection \<open>Sequences of requests against the store\<close>

datatype request =
    PostInquiry body timestamp timestamp
  | PutInquiry string body timestamp
  | DeleteInquiry string

fun handle :: "request \<Rightarrow> document option \<Rightarrow> response \<times> document option" where
  "handle (PostInquiry b t1 t2) file = post_inquiry b t1 t2 file"
| "handle (PutInquiry idParam b now) file = put_admin_inquiry idParam b now file"
| "handle (DeleteInquiry idParam) file = delete_admin_inquiry idParam file"

text \<open>Serving the requests one after the other: the responses, and the file at the end.\<close>

fun serve :: "request list \<Rightarrow> document option \<Rightarrow> response list \<times> document option" where
  "serve [] file = ([], file)"
| "serve (r # rs) file =
     (let (resp, w) = handle r file;
          (resps, file') = serve rs (written file w)
      in (resp # resps, file'))"

text \<open>The ids handed out in a list of responses, in order.\<close>

fun assigned :: "response list \<Rightarrow> int list" where
  "assigned [] = []"
| "assigned (Response c (Submitted m n) # rs) = n # assigned rs"
| "assigned (_ # rs) = assigned rs"

text \<open>The invariant of the file: no inquiry has an id above \<open>lastId\<close>.\<close>

definition ids_bounded :: "document option \<Rightarrow> bool" where
  "ids_bounded file = (\<forall>i \<in> set (inquiries (readData file)). id' i \<le> lastId (readData file))"

subsection \<open>A base64 decoder for the worked examples\<close>

text \<open>
  The alphabet of RFC 4648, four characters to three bytes. As Node's decoder does, it
  also reads the URL-safe \<open>-\<close> and \<open>_\<close>, skips every other character outside the
  alphabet, and stops at the padding; each byte is then masked to seven bits, as
  \<^verbatim>\<open>toString('ascii')\<close> does. It instantiates \<open>fromBase64\<close> where an example needs a
  concrete header.
\<close>

definition b64_alphabet :: string where
  "b64_alphabet = ''ABCDEFGHIJKLMNOPQRSTUVWXYZabcdefghijklmnopqrstuvwxyz0123456789+/''"

fun index_of :: "char \<Rightarrow> string \<Rightarrow> nat" where
  "index_of c [] = 0"
| "index_of c (x # xs) = (if c = x then 0 else Suc (index_of c xs))"

definition b64_value :: "char \<Rightarrow> nat option" where
  "b64_value c =
     (if c = CHR ''-'' then Some 62
      else if c = CHR ''_'' then Some 63
      else if c \<in> set b64_alphabet then Some (index_of c b64_alphabet)
      else None)"

fun b64_values :: "string \<Rightarrow> nat list" where
  "b64_values [] = []"
| "b64_values (c # cs) =
     (if c = CHR ''='' then []
      else (case b64_value c of Some v \<Rightarrow> v # b64_values cs | None \<Rightarrow> b64_values cs))"

fun b64_bytes :: "nat list \<Rightarrow> nat list" where
  "b64_bytes (a # b # c # d # rest) =
     (a * 4 + b div 16) # ((b mod 16) * 16 + c div 4) # ((c mod 4) * 64 + d) # b64_bytes rest"
| "b64_bytes [a, b, c] = [a * 4 + b div 16, (b mod 16) * 16 + c div 4]"
| "b64_bytes [a, b] = [a * 4 + b div 16]"
| "b64_bytes _ = []"

definition b64decode :: "string \<Rightarrow> string" where
  "b64decode s = map (\<lambda>n. char_of (n mod 128)) (b64_bytes (b64_values s))"

subsection \<open>Sample data for the worked examples\<close>

definition sample_inquiry :: "int \<Rightarrow> inquiry" where
  "sample_inquiry n =
     \<lparr>id' = n, name = JStr ''Asha'', phone = ''+919876543210'', email = JStr '''',
      travelers = Some 2, destination = JStr ''Goa'', travel_date = JNull,
      traveler_type = JNull, message = JStr '''', status = JStr ''new'',
      notes' = JStr ''call back'', created_at = 10 * n, updated_at = 10 * n\<rparr>"

definition sample_document :: document where
  "sample_document = \<lparr>inquiries = [sample_inquiry 1, sample_inquiry 2], lastId = 2\<rparr>"

definition sample_body :: body where
  "sample_body = empty_body(''name'' := JStr ''Asha'', ''phone'' := JStr ''+91 98765 43210'',
     ''travelers'' := JNum 2, ''destination'' := JStr ''Goa'')"

section \<open>Properties\<close>

subsection \<open>The rate limiter's window\<close>

lemma recent_all_kept:
  "\<forall>x \<in> set rs. t0 \<le> x \<Longrightarrow> now < t0 + 60000 \<Longrightarrow> recentRequests now rs = rs"
  unfolding recentRequests_def by (induction rs) auto

lemma calls_within_window:
  "rs = requests_of store ip \<Longrightarrow> \<forall>x \<in> set rs. t0 \<le> x \<Longrightarrow>
   \<forall>t \<in> set ts. t0 \<le> t \<and> t < t0 + 60000 \<Longrightarrow> length rs + length ts \<le> 30 \<Longrightarrow>
   ts \<noteq> [] \<Longrightarrow>
   calls ip ts store = (replicate (length ts) None, store(ip \<mapsto> rs @ ts))"
proof (induction ts arbitrary: store rs)
  case Nil
  then show ?case by simp
next
  case (Cons t ts)
  have kept: "recentRequests t rs = rs"
    using Cons.prems(2,3) by (intro recent_all_kept[of rs t0]) auto
  have step: "apiLimiter ip t store = (None, store(ip \<mapsto> rs @ [t]))"
    using Cons.prems(1,4) kept by (simp add: apiLimiter_def)
  show ?case
  proof (cases "ts = []")
    case True
    then show ?thesis using step by auto
  next
    case False
    have "calls ip ts (store(ip \<mapsto> rs @ [t])) =
        (replicate (length ts) None, (store(ip \<mapsto> rs @ [t]))(ip \<mapsto> (rs @ [t]) @ ts))"
      using Cons.prems False by (intro Cons.IH[of "rs @ [t]"]) (auto simp: requests_of_def)
    then show ?thesis using step by auto
  qed
qed

lemma calls_append:
  "calls ip (ts @ us) store =
     (let (rs, s1) = calls ip ts store; (rs', s2) = calls ip us s1 in (rs @ rs', s2))"
  by (induction ts arbitrary: store) (auto split: prod.splits)

text \<open>
  C4. On each call the limiter keeps exactly the instants less than 60000 ms old; with 30
  or more of them left it answers 429 and leaves the table as it was, otherwise it
  appends the current instant and lets the call through. So for a key the table does not
  know, 30 calls at instants within 60 s of the first all pass, a further call within
  that window is refused, and a call 61 s or more after the first passes again.
\<close>

theorem apiLimiter_sliding_window:
  assumes fresh: "store ip = None"
    and n: "length ts = 30"
    and first: "hd ts = t0"
    and window: "\<forall>t \<in> set ts. t0 \<le> t \<and> t < t0 + 60000"
    and t31: "t31 < t0 + 60000"
    and later: "t0 + 61000 \<le> t'"
  shows "set (recentRequests now rs) = {time \<in> set rs. now - time < 60000}
       \<and> apiLimiter k now s =
           (if length (recentRequests now (requests_of s k)) \<ge> 30
            then (Some (Response 429 (ErrorBody ''Too many requests, please try again later.'')), s)
            else (None, s(k \<mapsto> recentRequests now (requests_of s k) @ [now])))
       \<and> fst (calls ip (ts @ [t31, t']) store) =
           replicate 30 None
           @ [Some (Response 429 (ErrorBody ''Too many requests, please try again later.'')), None]"
proof -
  have a: "set (recentRequests now rs) = {time \<in> set rs. now - time < 60000}"
    by (auto simp: recentRequests_def)
  have b: "apiLimiter k now s =
           (if length (recentRequests now (requests_of s k)) \<ge> 30 then (Some too_many, s)
            else (None, s(k \<mapsto> recentRequests now (requests_of s k) @ [now])))"
    by (simp add: apiLimiter_def Let_def)
  have ne: "ts \<noteq> []" using n by auto
  have run30: "calls ip ts store = (replicate 30 None, store(ip \<mapsto> ts))"
    using calls_within_window[of "[]" store ip t0 ts] fresh n window ne
    by (simp add: requests_of_def)
  let ?s30 = "store(ip \<mapsto> ts)"
  have keep31: "recentRequests t31 ts = ts"
    using window t31 by (intro recent_all_kept[of ts t0]) auto
  have call31: "apiLimiter ip t31 ?s30 = (Some too_many, ?s30)"
    using keep31 n by (simp add: apiLimiter_def requests_of_def)
  have "t0 \<in> set ts" using first ne by auto
  moreover have "\<not> t' - t0 < 60000" using later by simp
  ultimately have "length (recentRequests t' ts) < length ts"
    unfolding recentRequests_def by (rule length_filter_less)
  then have call32: "fst (apiLimiter ip t' ?s30) = None"
    using n by (simp add: apiLimiter_def requests_of_def)
  have c: "fst (calls ip (ts @ [t31, t']) store) = replicate 30 None @ [Some too_many, None]"
    using run30 call31 call32 by (auto simp: calls_append split: prod.splits)
  show ?thesis using a b c unfolding too_many_def by blast
qed

theorem apiLimiter_sliding_window_witness:
  "fst (calls ''203.0.113.7''
      ([0, 1000, 2000, 3000, 4000, 5000, 6000, 7000, 8000, 9000,
        10000, 11000, 12000, 13000, 14000, 15000, 16000, 17000, 18000, 19000,
        20000, 21000, 22000, 23000, 24000, 25000, 26000, 27000, 28000, 59999]
       @ [59999, 61000]) Map.empty) =
   replicate 30 None
   @ [Some (Response 429 (ErrorBody ''Too many requests, please try again later.'')), None]"
proof -
  let ?ts = "[0, 1000, 2000, 3000, 4000, 5000, 6000, 7000, 8000, 9000,
        10000, 11000, 12000, 13000, 14000, 15000, 16000, 17000, 18000, 19000,
        20000, 21000, 22000, 23000, 24000, 25000, 26000, 27000, 28000, 59999 :: int]"
  have n: "length ?ts = 30" by simp
  have first: "hd ?ts = 0" by simp
  have window: "\<forall>t \<in> set ?ts. 0 \<le> t \<and> t < 0 + 60000" by simp
  have t31: "(59999 :: int) < 0 + 60000" by simp
  have later: "(0 :: int) + 61000 \<le> 61000" by simp
  show ?thesis
    by (rule apiLimiter_sliding_window
      [of Map.empty "''203.0.113.7''" ?ts 0 59999 61000, OF refl n first window t31 later,
       THEN conjunct2, THEN conjunct2])
qed

subsection \<open>Submitting an inquiry\<close>

text \<open>What the handler does once the four required fields are truthy and the phone is a
  string whose digits match.\<close>

lemma post_inquiry_accept:
  assumes "truthy (b ''name'')" "truthy (b ''travelers'')" "truthy (b ''destination'')"
    and "b ''phone'' = JStr p" "phone_pattern (strip_spaces p)"
  shows "post_inquiry b t1 t2 file =
    (Response 201 (Submitted ''Inquiry submitted successfully'' (lastId (readData file) + 1)),
     Some \<lparr>inquiries = inquiries (readData file) @
             [\<lparr>id' = lastId (readData file) + 1,
               name = b ''name'',
               phone = strip_spaces p,
               email = js_or (b ''email'') (JStr ''''),
               travelers = parseInt_val (b ''travelers''),
               destination = b ''destination'',
               travel_date = js_or (b ''travelDate'') JNull,
               traveler_type = js_or (b ''travelerType'') JNull,
               message = js_or (b ''message'') (JStr ''''),
               status = JStr ''new'',
               notes' = JNull,
               created_at = t1,
               updated_at = t2\<rparr>],
            lastId = lastId (readData file) + 1\<rparr>)"
proof -
  have "p \<noteq> []"
    using assms(5) by (auto simp: phone_pattern_def strip_spaces_def)
  then show ?thesis
    using assms by (simp add: post_inquiry_def Let_def)
qed

lemma post_inquiry_accepted_iff:
  "code (fst (post_inquiry b t1 t2 file)) = 201 \<longleftrightarrow>
     truthy (b ''name'') \<and> truthy (b ''travelers'') \<and> truthy (b ''destination'')
     \<and> (\<exists>p. b ''phone'' = JStr p \<and> phone_pattern (strip_spaces p))"
  by (cases "b ''phone''")
     (auto simp: post_inquiry_def Let_def phone_pattern_def strip_spaces_def)

lemma nat_48_57: "48 \<le> n \<Longrightarrow> n \<le> 57 \<Longrightarrow> n \<in> {48, 49, 50, 51, 52, 53, 54, 55, 56, 57 :: nat}"
  by simp arith

lemma is_digit_iff: "is_digit c \<longleftrightarrow> c \<in> set ''0123456789''"
proof
  assume "is_digit c"
  then have "(of_char c :: nat) \<in> {48, 49, 50, 51, 52, 53, 54, 55, 56, 57}"
    unfolding is_digit_def Let_def by (intro nat_48_57) auto
  then have "char_of (of_char c :: nat) \<in> char_of ` {48, 49, 50, 51, 52, 53, 54, 55, 56, 57 :: nat}"
    by (rule imageI)
  then have "c \<in> char_of ` {48, 49, 50, 51, 52, 53, 54, 55, 56, 57 :: nat}"
    by simp
  also have "char_of ` {48, 49, 50, 51, 52, 53, 54, 55, 56, 57 :: nat} = set ''0123456789''"
    by code_simp
  finally show "c \<in> set ''0123456789''" .
next
  assume "c \<in> set ''0123456789''"
  then show "is_digit c"
    by (auto simp: is_digit_def)
qed

lemma nat_9_13: "9 \<le> n \<Longrightarrow> n \<le> 13 \<Longrightarrow> n \<in> {9, 10, 11, 12, 13 :: nat}"
  by simp arith

lemma is_space_iff:
  "is_space c \<longleftrightarrow> c \<in> set [CHR 0x09, CHR 0x0A, CHR 0x0B, CHR 0x0C, CHR 0x0D, CHR '' '', CHR 0xA0]"
proof
  assume "is_space c"
  then have "(of_char c :: nat) \<in> {9, 10, 11, 12, 13, 32, 160}"
    unfolding is_space_def Let_def using nat_9_13 [of "of_char c"] by auto
  then have "char_of (of_char c :: nat) \<in> char_of ` {9, 10, 11, 12, 13, 32, 160 :: nat}"
    by (rule imageI)
  then have "c \<in> char_of ` {9, 10, 11, 12, 13, 32, 160 :: nat}"
    by simp
  also have "char_of ` {9, 10, 11, 12, 13, 32, 160 :: nat} =
      set [CHR 0x09, CHR 0x0A, CHR 0x0B, CHR 0x0C, CHR 0x0D, CHR '' '', CHR 0xA0]"
    by code_simp
  finally show "c \<in> set [CHR 0x09, CHR 0x0A, CHR 0x0B, CHR 0x0C, CHR 0x0D, CHR '' '', CHR 0xA0]" .
next
  assume "c \<in> set [CHR 0x09, CHR 0x0A, CHR 0x0B, CHR 0x0C, CHR 0x0D, CHR '' '', CHR 0xA0]"
  then show "is_space c"
    by (auto simp: is_space_def)
qed

lemma phone_pattern_iff:
  "phone_pattern s \<longleftrightarrow>
     (\<exists>ds. (s = ds \<or> s = CHR ''+'' # ds) \<and> 10 \<le> length ds \<and> length ds \<le> 15
        \<and> set ds \<subseteq> set ''0123456789'')"
proof
  assume m: "phone_pattern s"
  define ds where "ds = (case s of c # r \<Rightarrow> if c = CHR ''+'' then r else s | [] \<Rightarrow> s)"
  have "s = ds \<or> s = CHR ''+'' # ds"
    by (auto simp: ds_def split: list.splits)
  moreover have "10 \<le> length ds \<and> length ds \<le> 15 \<and> list_all is_digit ds"
    using m by (simp add: phone_pattern_def ds_def Let_def)
  moreover have "list_all is_digit ds \<Longrightarrow> set ds \<subseteq> set ''0123456789''"
    using is_digit_iff by (auto simp: list_all_iff)
  ultimately show "\<exists>ds. (s = ds \<or> s = CHR ''+'' # ds) \<and> 10 \<le> length ds \<and> length ds \<le> 15
        \<and> set ds \<subseteq> set ''0123456789''"
    by blast
next
  assume "\<exists>ds. (s = ds \<or> s = CHR ''+'' # ds) \<and> 10 \<le> length ds \<and> length ds \<le> 15
        \<and> set ds \<subseteq> set ''0123456789''"
  then obtain ds where s: "s = ds \<or> s = CHR ''+'' # ds"
    and len: "10 \<le> length ds" "length ds \<le> 15"
    and dig: "set ds \<subseteq> set ''0123456789''"
    by blast
  have all: "list_all is_digit ds"
    unfolding list_all_iff using dig is_digit_iff by blast
  have plus: "\<not> is_digit CHR ''+''"
    by (simp add: is_digit_def)
  from s show "phone_pattern s"
  proof
    assume eq: "s = ds"
    have "ds \<noteq> []" using len by auto
    then obtain c r where cr: "ds = c # r" by (cases ds) auto
    have "c \<noteq> CHR ''+''" using all plus cr by auto
    then show ?thesis
      using eq cr all len by (simp add: phone_pattern_def)
  next
    assume "s = CHR ''+'' # ds"
    then show ?thesis
      using all len by (simp add: phone_pattern_def)
  qed
qed

text \<open>
  C1. Whenever the submission is accepted (201), the id sent back is the document's
  \<open>lastId\<close> as read plus one, the document written has that id as its \<open>lastId\<close>, and
  its inquiries are those read followed by the new inquiry, which carries the id; reading
  the file after the write gives that document. The \<open>lastId\<close> read is taken in the
  range where \<^verbatim>\<open>data.lastId++\<close> counts exactly, from \<open>- 2^53\<close> up to but not including
  \<open>2^53 = 9007199254740992\<close>: from there on the increment of a double rounds, and
  the integer addition of \<open>post_inquiry\<close> no longer stands for it.
\<close>

theorem post_inquiry_next_id:
  assumes accepted: "code (fst (post_inquiry b t1 t2 file)) = 201"
    and exact: "- 9007199254740992 \<le> lastId (readData file)"
      "lastId (readData file) < 9007199254740992"
  shows "\<exists>inquiry data'.
      post_inquiry b t1 t2 file =
        (Response 201 (Submitted ''Inquiry submitted successfully'' (lastId (readData file) + 1)),
         Some data')
      \<and> lastId data' = lastId (readData file) + 1
      \<and> inquiries data' = inquiries (readData file) @ [inquiry]
      \<and> id' inquiry = lastId (readData file) + 1
      \<and> readData (written file (Some data')) = data'"
proof -
  from accepted obtain p where ok:
    "truthy (b ''name'')" "truthy (b ''travelers'')" "truthy (b ''destination'')"
    "b ''phone'' = JStr p" "phone_pattern (strip_spaces p)"
    unfolding post_inquiry_accepted_iff by blast
  show ?thesis
    unfolding post_inquiry_accept [OF ok]
    by (simp add: readData_def written_def)
qed

theorem post_inquiry_next_id_witness:
  "code (fst (post_inquiry
      (empty_body(''name'' := JStr ''Asha'', ''phone'' := JStr ''+91 98765 43210'',
         ''travelers'' := JNum 2, ''destination'' := JStr ''Goa''))
      1700000000000 1700000000001 (Some \<lparr>inquiries = [], lastId = 41\<rparr>))) = 201
   \<and> (\<exists>inquiry data'.
      post_inquiry
        (empty_body(''name'' := JStr ''Asha'', ''phone'' := JStr ''+91 98765 43210'',
           ''travelers'' := JNum 2, ''destination'' := JStr ''Goa''))
        1700000000000 1700000000001 (Some \<lparr>inquiries = [], lastId = 41\<rparr>) =
        (Response 201 (Submitted ''Inquiry submitted successfully''
           (lastId (readData (Some \<lparr>inquiries = [], lastId = 41\<rparr>)) + 1)), Some data')
      \<and> lastId data' = lastId (readData (Some \<lparr>inquiries = [], lastId = 41\<rparr>)) + 1
      \<and> inquiries data' = inquiries (readData (Some \<lparr>inquiries = [], lastId = 41\<rparr>)) @ [inquiry]
      \<and> id' inquiry = lastId (readData (Some \<lparr>inquiries = [], lastId = 41\<rparr>)) + 1
      \<and> readData (written (Some \<lparr>inquiries = [], lastId = 41\<rparr>) (Some data')) = data')"
proof -
  have accepted: "code (fst (post_inquiry
      (empty_body(''name'' := JStr ''Asha'', ''phone'' := JStr ''+91 98765 43210'',
         ''travelers'' := JNum 2, ''destination'' := JStr ''Goa''))
      1700000000000 1700000000001 (Some \<lparr>inquiries = [], lastId = 41\<rparr>))) = 201"
    by (simp add: post_inquiry_def empty_body_def strip_spaces_def is_space_def
        phone_pattern_def is_digit_def Let_def)
  have exact: "- 9007199254740992 \<le> lastId (readData (Some \<lparr>inquiries = [], lastId = 41\<rparr>))"
    "lastId (readData (Some \<lparr>inquiries = [], lastId = 41\<rparr>)) < 9007199254740992"
    by (simp_all add: readData_def)
  show ?thesis
    using accepted post_inquiry_next_id [OF accepted exact] by (rule conjI)
qed

text \<open>
  C7. When one of \<open>name\<close>, \<open>phone\<close>, \<open>travelers\<close>, \<open>destination\<close> is missing or not
  truthy, the answer is 400 with the message for missing required fields, and nothing is
  written: the file stays as it was.
\<close>

theorem post_inquiry_missing_field:
  assumes "\<not> truthy (b ''name'') \<or> \<not> truthy (b ''phone'') \<or> \<not> truthy (b ''travelers'')
      \<or> \<not> truthy (b ''destination'')"
  shows "post_inquiry b t1 t2 file = (Response 400 (ErrorBody ''Missing required fields''), None)
      \<and> written file (snd (post_inquiry b t1 t2 file)) = file"
  using assms by (auto simp: post_inquiry_def written_def)

theorem post_inquiry_missing_field_witness:
  "post_inquiry
      (empty_body(''name'' := JStr ''Asha'', ''phone'' := JStr ''+919876543210'',
         ''travelers'' := JNum 0))
      5 6 (Some \<lparr>inquiries = [], lastId = 41\<rparr>) =
     (Response 400 (ErrorBody ''Missing required fields''), None)
   \<and> written (Some \<lparr>inquiries = [], lastId = 41\<rparr>)
       (snd (post_inquiry
         (empty_body(''name'' := JStr ''Asha'', ''phone'' := JStr ''+919876543210'',
            ''travelers'' := JNum 0))
         5 6 (Some \<lparr>inquiries = [], lastId = 41\<rparr>))) = Some \<lparr>inquiries = [], lastId = 41\<rparr>"
  by (rule post_inquiry_missing_field) (simp add: empty_body_def)

text \<open>
  The phone check on a phone that is a string, the other required fields being
  truthy: every white-space character is removed and the rest is kept in order; the
  submission is accepted exactly when what is left is an optional \<open>+\<close> followed by 10 to
  15 digits, and the stored phone is then the stripped one; otherwise the answer is 400
  and nothing is written, with the message for an invalid phone number unless the phone
  is the empty string.
\<close>

theorem post_inquiry_phone_check:
  assumes others: "truthy (b ''name'')" "truthy (b ''travelers'')" "truthy (b ''destination'')"
    and str: "b ''phone'' = JStr p"
  shows "strip_spaces p =
           filter (\<lambda>c. c \<notin> set [CHR 0x09, CHR 0x0A, CHR 0x0B, CHR 0x0C, CHR 0x0D, CHR '' '', CHR 0xA0]) p
       \<and> (code (fst (post_inquiry b t1 t2 file)) = 201 \<longleftrightarrow>
            (\<exists>ds. (strip_spaces p = ds \<or> strip_spaces p = CHR ''+'' # ds)
                \<and> 10 \<le> length ds \<and> length ds \<le> 15 \<and> set ds \<subseteq> set ''0123456789''))
       \<and> (code (fst (post_inquiry b t1 t2 file)) = 201 \<longrightarrow>
            (\<exists>data'. snd (post_inquiry b t1 t2 file) = Some data'
                \<and> phone (last (inquiries data')) = strip_spaces p))
       \<and> (code (fst (post_inquiry b t1 t2 file)) \<noteq> 201 \<longrightarrow>
            code (fst (post_inquiry b t1 t2 file)) = 400
            \<and> snd (post_inquiry b t1 t2 file) = None)
       \<and> (code (fst (post_inquiry b t1 t2 file)) \<noteq> 201 \<and> p \<noteq> [] \<longrightarrow>
            post_inquiry b t1 t2 file = (Response 400 (ErrorBody ''Invalid phone number''), None))"
proof -
  have strip: "strip_spaces p =
      filter (\<lambda>c. c \<notin> set [CHR 0x09, CHR 0x0A, CHR 0x0B, CHR 0x0C, CHR 0x0D, CHR '' '', CHR 0xA0]) p"
    unfolding strip_spaces_def is_space_iff ..
  have acc: "code (fst (post_inquiry b t1 t2 file)) = 201 \<longleftrightarrow> phone_pattern (strip_spaces p)"
    unfolding post_inquiry_accepted_iff using others str by simp
  have stored: "\<exists>data'. snd (post_inquiry b t1 t2 file) = Some data'
        \<and> phone (last (inquiries data')) = strip_spaces p"
    if "phone_pattern (strip_spaces p)"
    unfolding post_inquiry_accept [OF others str that] by simp
  have rej: "post_inquiry b t1 t2 file =
      (if p = [] then (Response 400 (ErrorBody ''Missing required fields''), None)
       else (Response 400 (ErrorBody ''Invalid phone number''), None))"
    if "\<not> phone_pattern (strip_spaces p)"
    using others str that by (simp add: post_inquiry_def)
  show ?thesis
    using strip acc stored rej unfolding phone_pattern_iff by auto
qed

text \<open>Two instances: \<open>+919876543210\<close> is accepted, \<open>123-456\<close> is refused as an invalid
  phone number.\<close>

theorem post_inquiry_phone_check_witness:
  "code (fst (post_inquiry
      (empty_body(''name'' := JStr ''Asha'', ''phone'' := JStr ''+919876543210'',
         ''travelers'' := JStr ''2'', ''destination'' := JStr ''Goa'')) 5 6 None)) = 201
   \<and> post_inquiry
      (empty_body(''name'' := JStr ''Asha'', ''phone'' := JStr ''123-456'',
         ''travelers'' := JStr ''2'', ''destination'' := JStr ''Goa'')) 5 6 None =
      (Response 400 (ErrorBody ''Invalid phone number''), None)"
proof -
  let ?ok = "empty_body(''name'' := JStr ''Asha'', ''phone'' := JStr ''+919876543210'',
         ''travelers'' := JStr ''2'', ''destination'' := JStr ''Goa'')"
  let ?bad = "empty_body(''name'' := JStr ''Asha'', ''phone'' := JStr ''123-456'',
         ''travelers'' := JStr ''2'', ''destination'' := JStr ''Goa'')"
  have ok: "truthy (?ok ''name'')" "truthy (?ok ''travelers'')" "truthy (?ok ''destination'')"
    "?ok ''phone'' = JStr ''+919876543210''"
    by simp_all
  have bad: "truthy (?bad ''name'')" "truthy (?bad ''travelers'')" "truthy (?bad ''destination'')"
    "?bad ''phone'' = JStr ''123-456''"
    by simp_all
  have stripped: "strip_spaces ''+919876543210'' = ''+919876543210''"
    "strip_spaces ''123-456'' = ''123-456''"
    by (simp_all add: strip_spaces_def is_space_def)
  have digits: "(\<exists>ds. (''+919876543210'' = ds \<or> ''+919876543210'' = CHR ''+'' # ds)
      \<and> 10 \<le> length ds \<and> length ds \<le> 15 \<and> set ds \<subseteq> set ''0123456789'')"
    by (rule exI [of _ "''919876543210''"]) simp
  have short: "\<not> (\<exists>ds. (''123-456'' = ds \<or> ''123-456'' = CHR ''+'' # ds)
      \<and> 10 \<le> length ds \<and> length ds \<le> 15 \<and> set ds \<subseteq> set ''0123456789'')"
    by auto
  have "code (fst (post_inquiry ?ok 5 6 None)) = 201"
    using post_inquiry_phone_check [OF ok, of 5 6 None] digits unfolding stripped by blast
  moreover have "post_inquiry ?bad 5 6 None = (Response 400 (ErrorBody ''Invalid phone number''), None)"
    using post_inquiry_phone_check [OF bad, of 5 6 None] short unfolding stripped by blast
  ultimately show ?thesis by (rule conjI)
qed

text \<open>
  C6 at a phone sent as a JSON number: it is truthy and has no \<^verbatim>\<open>replace\<close> method, so
  the call throws before the pattern is tried and the \<^verbatim>\<open>catch\<close> answers 500; the phone
  is neither accepted nor refused with the 400 of the validation.
\<close>

theorem post_inquiry_phone_number_500:
  "post_inquiry
      (empty_body(''name'' := JStr ''Asha'', ''phone'' := JNum 9876543210,
         ''travelers'' := JNum 2, ''destination'' := JStr ''Goa'')) 5 6 None =
     (Response 500 (ErrorBody ''Failed to submit inquiry''), None)"
  by (simp add: post_inquiry_def empty_body_def)

theorem post_inquiry_phone_number_500_witness:
  "code (fst (post_inquiry
      (empty_body(''name'' := JStr ''Asha'', ''phone'' := JNum 9876543210,
         ''travelers'' := JNum 2, ''destination'' := JStr ''Goa'')) 5 6 None)) = 500
   \<and> snd (post_inquiry
      (empty_body(''name'' := JStr ''Asha'', ''phone'' := JNum 9876543210,
         ''travelers'' := JNum 2, ''destination'' := JStr ''Goa'')) 5 6 None) = None"
  unfolding post_inquiry_phone_number_500 by simp

text \<open>
  C10 at a travelers value without a leading digit: the submission is accepted and the
  stored record holds \<^verbatim>\<open>NaN\<close>, not an integer.
\<close>

theorem post_inquiry_travelers_nan:
  "post_inquiry
      (empty_body(''name'' := JStr ''Asha'', ''phone'' := JStr ''+919876543210'',
         ''travelers'' := JStr ''abc'', ''destination'' := JStr ''Goa'')) 5 6 None =
     (Response 201 (Submitted ''Inquiry submitted successfully'' 1),
      Some \<lparr>inquiries =
              [\<lparr>id' = 1, name = JStr ''Asha'', phone = ''+919876543210'', email = JStr '''',
                travelers = None, destination = JStr ''Goa'', travel_date = JNull,
                traveler_type = JNull, message = JStr '''', status = JStr ''new'',
                notes' = JNull, created_at = 5, updated_at = 6\<rparr>],
            lastId = 1\<rparr>)"
  by (simp add: post_inquiry_def empty_body_def strip_spaces_def is_space_def
      phone_pattern_def is_digit_def Let_def readData_def empty_document_def
      parseInt_def digit_value_def js_or_def)

theorem post_inquiry_travelers_nan_witness:
  "code (fst (post_inquiry
      (empty_body(''name'' := JStr ''Asha'', ''phone'' := JStr ''+919876543210'',
         ''travelers'' := JStr ''abc'', ''destination'' := JStr ''Goa'')) 5 6 None)) = 201
   \<and> map travelers (inquiries (readData (snd (post_inquiry
      (empty_body(''name'' := JStr ''Asha'', ''phone'' := JStr ''+919876543210'',
         ''travelers'' := JStr ''abc'', ''destination'' := JStr ''Goa'')) 5 6 None)))) = [None]"
  unfolding post_inquiry_travelers_nan by (simp add: readData_def)

subsection \<open>Updating and deleting an inquiry\<close>

lemma find_first_match:
  "xs = pre @ x # post \<Longrightarrow> P x \<Longrightarrow> \<forall>y \<in> set pre. \<not> P y \<Longrightarrow>
   find P xs = Some x \<and> replace_first P y xs = pre @ y # post"
  by (induction pre arbitrary: xs) auto

lemma find_no_match: "\<forall>x \<in> set xs. \<not> P x \<Longrightarrow> find P xs = None"
  by (induction xs) auto

lemma find_some_match: "\<exists>x \<in> set xs. P x \<Longrightarrow> \<exists>x. find P xs = Some x"
  by (induction xs) auto

text \<open>
  C2. When the inquiries read are \<open>pre @ inq # post\<close> with \<open>inq\<close> the first whose id is
  the number parsed from the path parameter, the handler answers 200 and writes the
  document with \<open>inq\<close> replaced where it stands: its status is the one sent when that is
  truthy and the old one otherwise (so it is kept when no status is sent), its notes are
  the value sent whenever the key is present, be it \<open>null\<close> or the empty string, and the
  old ones when it is absent, and \<open>updated_at\<close> is the clock reading; every other field
  is kept. Every id that some inquiry bears is answered 200; an id that no inquiry bears
  is answered 404 and nothing is written.
\<close>

theorem put_admin_inquiry_update:
  "(\<forall>pre inq post.
      inquiries (readData file) = pre @ inq # post \<and> parseInt idParam = Some (id' inq)
      \<and> (\<forall>i \<in> set pre. id' i \<noteq> id' inq) \<longrightarrow>
      put_admin_inquiry idParam b now file =
        (Response 200 (Updated ''Inquiry updated''
           (inq\<lparr>status := (if truthy (b ''status'') then b ''status'' else status inq),
                notes' := (if b ''notes'' = JUndefined then notes' inq else b ''notes''),
                updated_at := now\<rparr>)),
         Some ((readData file)\<lparr>inquiries := pre @
           inq\<lparr>status := (if truthy (b ''status'') then b ''status'' else status inq),
               notes' := (if b ''notes'' = JUndefined then notes' inq else b ''notes''),
               updated_at := now\<rparr> # post\<rparr>)))
   \<and> ((\<exists>i \<in> set (inquiries (readData file)). parseInt idParam = Some (id' i)) \<longrightarrow>
        code (fst (put_admin_inquiry idParam b now file)) = 200)
   \<and> ((\<forall>i \<in> set (inquiries (readData file)). parseInt idParam \<noteq> Some (id' i)) \<longrightarrow>
        put_admin_inquiry idParam b now file = (Response 404 (ErrorBody ''Inquiry not found''), None))"
proof (intro conjI allI impI)
  fix pre inq post
  assume h: "inquiries (readData file) = pre @ inq # post \<and> parseInt idParam = Some (id' inq)
      \<and> (\<forall>i \<in> set pre. id' i \<noteq> id' inq)"
  have "find (id_matches (parseInt idParam)) (inquiries (readData file)) = Some inq
      \<and> replace_first (id_matches (parseInt idParam)) y (inquiries (readData file)) = pre @ y # post"
    for y
    using h by (intro find_first_match) (auto simp: id_matches_def)
  then show "put_admin_inquiry idParam b now file =
        (Response 200 (Updated ''Inquiry updated''
           (inq\<lparr>status := (if truthy (b ''status'') then b ''status'' else status inq),
                notes' := (if b ''notes'' = JUndefined then notes' inq else b ''notes''),
                updated_at := now\<rparr>)),
         Some ((readData file)\<lparr>inquiries := pre @
           inq\<lparr>status := (if truthy (b ''status'') then b ''status'' else status inq),
               notes' := (if b ''notes'' = JUndefined then notes' inq else b ''notes''),
               updated_at := now\<rparr> # post\<rparr>))"
    by (simp add: put_admin_inquiry_def Let_def js_or_def)
next
  assume "\<exists>i \<in> set (inquiries (readData file)). parseInt idParam = Some (id' i)"
  then have "\<exists>x. find (id_matches (parseInt idParam)) (inquiries (readData file)) = Some x"
    by (intro find_some_match) (simp add: id_matches_def)
  then show "code (fst (put_admin_inquiry idParam b now file)) = 200"
    by (auto simp: put_admin_inquiry_def Let_def)
next
  assume "\<forall>i \<in> set (inquiries (readData file)). parseInt idParam \<noteq> Some (id' i)"
  then have "find (id_matches (parseInt idParam)) (inquiries (readData file)) = None"
    by (intro find_no_match) (simp add: id_matches_def)
  then show "put_admin_inquiry idParam b now file =
      (Response 404 (ErrorBody ''Inquiry not found''), None)"
    by (simp add: put_admin_inquiry_def)
qed

theorem put_admin_inquiry_update_witness:
  "put_admin_inquiry ''2'' (empty_body(''notes'' := JNull)) 99 (Some sample_document) =
     (Response 200 (Updated ''Inquiry updated''
        ((sample_inquiry 2)\<lparr>notes' := JNull, updated_at := 99\<rparr>)),
      Some \<lparr>inquiries = [sample_inquiry 1, (sample_inquiry 2)\<lparr>notes' := JNull, updated_at := 99\<rparr>],
            lastId = 2\<rparr>)
   \<and> put_admin_inquiry ''1'' (empty_body(''status'' := JStr ''contacted'')) 99 (Some sample_document) =
     (Response 200 (Updated ''Inquiry updated''
        ((sample_inquiry 1)\<lparr>status := JStr ''contacted'', updated_at := 99\<rparr>)),
      Some \<lparr>inquiries = [(sample_inquiry 1)\<lparr>status := JStr ''contacted'', updated_at := 99\<rparr>,
              sample_inquiry 2], lastId = 2\<rparr>)
   \<and> code (fst (put_admin_inquiry ''2'' (empty_body(''notes'' := JNull)) 99 (Some sample_document))) = 200
   \<and> put_admin_inquiry ''7'' (empty_body(''notes'' := JNull)) 99 (Some sample_document) =
     (Response 404 (ErrorBody ''Inquiry not found''), None)"
proof -
  have two: "parseInt ''2'' = Some 2" and one: "parseInt ''1'' = Some 1"
    and seven: "parseInt ''7'' = Some 7"
    by (simp_all add: parseInt_def is_space_def digit_value_def)
  have read: "inquiries (readData (Some sample_document)) = [sample_inquiry 1, sample_inquiry 2]"
    by (simp add: readData_def sample_document_def)
  have a: "inquiries (readData (Some sample_document)) = [sample_inquiry 1] @ sample_inquiry 2 # []
      \<and> parseInt ''2'' = Some (id' (sample_inquiry 2))
      \<and> (\<forall>i \<in> set [sample_inquiry 1]. id' i \<noteq> id' (sample_inquiry 2))"
    using two read by (simp add: sample_inquiry_def)
  have b: "inquiries (readData (Some sample_document)) = [] @ sample_inquiry 1 # [sample_inquiry 2]
      \<and> parseInt ''1'' = Some (id' (sample_inquiry 1))
      \<and> (\<forall>i \<in> set []. id' i \<noteq> id' (sample_inquiry 1))"
    using one read by (simp add: sample_inquiry_def)
  have c: "\<exists>i \<in> set (inquiries (readData (Some sample_document))). parseInt ''2'' = Some (id' i)"
    using two read by (simp add: sample_inquiry_def)
  have d: "\<forall>i \<in> set (inquiries (readData (Some sample_document))). parseInt ''7'' \<noteq> Some (id' i)"
    using seven read by (simp add: sample_inquiry_def)
  note thm2 = put_admin_inquiry_update
    [of "Some sample_document" "''2''" "empty_body(''notes'' := JNull)" 99]
  note thm1 = put_admin_inquiry_update
    [of "Some sample_document" "''1''" "empty_body(''status'' := JStr ''contacted'')" 99]
  note thm7 = put_admin_inquiry_update
    [of "Some sample_document" "''7''" "empty_body(''notes'' := JNull)" 99]
  have r2: "put_admin_inquiry ''2'' (empty_body(''notes'' := JNull)) 99 (Some sample_document) =
     (Response 200 (Updated ''Inquiry updated''
        ((sample_inquiry 2)\<lparr>notes' := JNull, updated_at := 99\<rparr>)),
      Some \<lparr>inquiries = [sample_inquiry 1, (sample_inquiry 2)\<lparr>notes' := JNull, updated_at := 99\<rparr>],
            lastId = 2\<rparr>)"
    using thm2 [THEN conjunct1, rule_format, OF a]
    by (simp add: empty_body_def readData_def sample_document_def sample_inquiry_def)
  have r1: "put_admin_inquiry ''1'' (empty_body(''status'' := JStr ''contacted'')) 99 (Some sample_document) =
     (Response 200 (Updated ''Inquiry updated''
        ((sample_inquiry 1)\<lparr>status := JStr ''contacted'', updated_at := 99\<rparr>)),
      Some \<lparr>inquiries = [(sample_inquiry 1)\<lparr>status := JStr ''contacted'', updated_at := 99\<rparr>,
              sample_inquiry 2], lastId = 2\<rparr>)"
    using thm1 [THEN conjunct1, rule_format, OF b]
    by (simp add: empty_body_def readData_def sample_document_def sample_inquiry_def)
  have r3: "code (fst (put_admin_inquiry ''2'' (empty_body(''notes'' := JNull)) 99 (Some sample_document))) = 200"
    using thm2 [THEN conjunct2, THEN conjunct1, rule_format, OF c] .
  have r4: "put_admin_inquiry ''7'' (empty_body(''notes'' := JNull)) 99 (Some sample_document) =
     (Response 404 (ErrorBody ''Inquiry not found''), None)"
    using thm7 [THEN conjunct2, THEN conjunct2, THEN mp, OF d] .
  show ?thesis using r2 r1 r3 r4 by (intro conjI)
qed

lemma filter_shorter_iff: "length (filter P xs) < length xs \<longleftrightarrow> (\<exists>x \<in> set xs. \<not> P x)"
proof
  assume "length (filter P xs) < length xs"
  then have "filter P xs \<noteq> xs" by auto
  then show "\<exists>x \<in> set xs. \<not> P x" by (auto simp: filter_id_conv)
next
  assume "\<exists>x \<in> set xs. \<not> P x"
  then show "length (filter P xs) < length xs" by (auto intro: length_filter_less)
qed

text \<open>
  C8. When some inquiry bears the number parsed from the path parameter, the handler
  answers 200 and writes the document without the inquiries of that id, the others kept
  in order; the same request against the file it wrote is answered 404. When no inquiry
  bears it, the answer is 404 and nothing is written, so the file stays as it was.
\<close>

theorem delete_admin_inquiry_removes:
  "((\<exists>i \<in> set (inquiries (readData file)). parseInt idParam = Some (id' i)) \<longrightarrow>
      delete_admin_inquiry idParam file =
        (Response 200 (Deleted ''Inquiry deleted''),
         Some ((readData file)\<lparr>inquiries :=
            filter (\<lambda>i. parseInt idParam \<noteq> Some (id' i)) (inquiries (readData file))\<rparr>))
      \<and> delete_admin_inquiry idParam (written file (snd (delete_admin_inquiry idParam file))) =
        (Response 404 (ErrorBody ''Inquiry not found''), None))
   \<and> ((\<forall>i \<in> set (inquiries (readData file)). parseInt idParam \<noteq> Some (id' i)) \<longrightarrow>
      delete_admin_inquiry idParam file = (Response 404 (ErrorBody ''Inquiry not found''), None)
      \<and> written file (snd (delete_admin_inquiry idParam file)) = file)"
proof (intro conjI impI)
  assume present: "\<exists>i \<in> set (inquiries (readData file)). parseInt idParam = Some (id' i)"
  let ?kept = "filter (\<lambda>i. parseInt idParam \<noteq> Some (id' i)) (inquiries (readData file))"
  have "length ?kept < length (inquiries (readData file))"
    unfolding filter_shorter_iff using present by simp
  then show first: "delete_admin_inquiry idParam file =
        (Response 200 (Deleted ''Inquiry deleted''),
         Some ((readData file)\<lparr>inquiries := ?kept\<rparr>))"
    by (simp add: delete_admin_inquiry_def id_matches_def Let_def)
  have "\<not> length (filter (\<lambda>i. parseInt idParam \<noteq> Some (id' i)) ?kept) < length ?kept"
    by simp
  then show "delete_admin_inquiry idParam (written file (snd (delete_admin_inquiry idParam file))) =
        (Response 404 (ErrorBody ''Inquiry not found''), None)"
    unfolding first
    by (simp add: delete_admin_inquiry_def id_matches_def Let_def written_def readData_def)
next
  assume absent: "\<forall>i \<in> set (inquiries (readData file)). parseInt idParam \<noteq> Some (id' i)"
  then have "\<not> length (filter (\<lambda>i. parseInt idParam \<noteq> Some (id' i)) (inquiries (readData file)))
      < length (inquiries (readData file))"
    unfolding filter_shorter_iff by simp
  then show "delete_admin_inquiry idParam file = (Response 404 (ErrorBody ''Inquiry not found''), None)"
    by (simp add: delete_admin_inquiry_def id_matches_def Let_def)
  then show "written file (snd (delete_admin_inquiry idParam file)) = file"
    by (simp add: written_def)
qed

theorem delete_admin_inquiry_removes_witness:
  "delete_admin_inquiry ''2'' (Some sample_document) =
     (Response 200 (Deleted ''Inquiry deleted''),
      Some \<lparr>inquiries = [sample_inquiry 1], lastId = 2\<rparr>)
   \<and> delete_admin_inquiry ''2''
       (written (Some sample_document) (snd (delete_admin_inquiry ''2'' (Some sample_document)))) =
     (Response 404 (ErrorBody ''Inquiry not found''), None)
   \<and> delete_admin_inquiry ''7'' (Some sample_document) =
     (Response 404 (ErrorBody ''Inquiry not found''), None)
   \<and> written (Some sample_document) (snd (delete_admin_inquiry ''7'' (Some sample_document))) =
     Some sample_document"
proof -
  have two: "parseInt ''2'' = Some 2" and seven: "parseInt ''7'' = Some 7"
    by (simp_all add: parseInt_def is_space_def digit_value_def)
  have read: "inquiries (readData (Some sample_document)) = [sample_inquiry 1, sample_inquiry 2]"
    by (simp add: readData_def sample_document_def)
  have present: "\<exists>i \<in> set (inquiries (readData (Some sample_document))). parseInt ''2'' = Some (id' i)"
    using two read by (simp add: sample_inquiry_def)
  have absent: "\<forall>i \<in> set (inquiries (readData (Some sample_document))). parseInt ''7'' \<noteq> Some (id' i)"
    using seven read by (simp add: sample_inquiry_def)
  have kept: "(readData (Some sample_document))\<lparr>inquiries :=
            filter (\<lambda>i. parseInt ''2'' \<noteq> Some (id' i)) (inquiries (readData (Some sample_document)))\<rparr>
      = \<lparr>inquiries = [sample_inquiry 1], lastId = 2\<rparr>"
    using two by (simp add: readData_def sample_document_def sample_inquiry_def)
  note gone = delete_admin_inquiry_removes [of "Some sample_document" "''2''",
      THEN conjunct1, THEN mp, OF present]
  note none = delete_admin_inquiry_removes [of "Some sample_document" "''7''",
      THEN conjunct2, THEN mp, OF absent]
  show ?thesis
    using gone [unfolded kept] none by blast
qed

subsection \<open>Ids over sequences of requests\<close>

lemma set_replace_first: "set (replace_first P y xs) \<subseteq> insert y (set xs)"
  by (induction xs) auto

lemma readData_written [simp]:
  "readData (written file (Some data)) = data" "written file None = file"
  by (simp_all add: written_def readData_def)

lemma put_admin_inquiry_cases:
  assumes "put_admin_inquiry idParam b now file = (resp, w)"
  shows "(w = None \<and> resp = Response 404 (ErrorBody ''Inquiry not found''))
       \<or> (\<exists>inq inq'. inq \<in> set (inquiries (readData file)) \<and> id' inq' = id' inq
            \<and> resp = Response 200 (Updated ''Inquiry updated'' inq')
            \<and> w = Some ((readData file)\<lparr>inquiries :=
                  replace_first (id_matches (parseInt idParam)) inq' (inquiries (readData file))\<rparr>))"
proof (cases "find (id_matches (parseInt idParam)) (inquiries (readData file))")
  case None
  then show ?thesis
    using assms by (auto simp: put_admin_inquiry_def)
next
  case (Some inq)
  then have "inq \<in> set (inquiries (readData file))"
    by (auto simp: find_Some_iff)
  then show ?thesis
    using assms Some by (auto simp: put_admin_inquiry_def Let_def)
qed

lemma delete_admin_inquiry_cases:
  assumes "delete_admin_inquiry idParam file = (resp, w)"
  shows "(w = None \<and> resp = Response 404 (ErrorBody ''Inquiry not found''))
       \<or> (resp = Response 200 (Deleted ''Inquiry deleted'')
            \<and> w = Some ((readData file)\<lparr>inquiries :=
                  filter (\<lambda>i. \<not> id_matches (parseInt idParam) i) (inquiries (readData file))\<rparr>))"
  using assms by (auto simp: delete_admin_inquiry_def Let_def split: if_splits)

lemma handle_step:
  assumes inv: "ids_bounded file" and h: "handle r file = (resp, w)"
  shows "ids_bounded (written file w)
       \<and> lastId (readData file) \<le> lastId (readData (written file w))
       \<and> (\<forall>c m n. resp = Response c (Submitted m n) \<longrightarrow>
            lastId (readData file) < n \<and> n \<le> lastId (readData (written file w)))"
proof (cases r)
  case (PostInquiry b t1 t2)
  show ?thesis
  proof (cases "code (fst (post_inquiry b t1 t2 file)) = 201")
    case True
    then obtain p where ok:
      "truthy (b ''name'')" "truthy (b ''travelers'')" "truthy (b ''destination'')"
      "b ''phone'' = JStr p" "phone_pattern (strip_spaces p)"
      unfolding post_inquiry_accepted_iff by blast
    show ?thesis
      using h inv unfolding PostInquiry handle.simps post_inquiry_accept [OF ok]
      by (fastforce simp: ids_bounded_def)
  next
    case False
    have "w = None \<and> (\<forall>c m n. resp \<noteq> Response c (Submitted m n))"
      using h False unfolding PostInquiry handle.simps
      by (auto simp: post_inquiry_def Let_def split: if_splits jsval.splits)
    then show ?thesis
      using inv by simp
  qed
next
  case (PutInquiry idParam b now)
  from h have "put_admin_inquiry idParam b now file = (resp, w)"
    unfolding PutInquiry by simp
  from put_admin_inquiry_cases [OF this] show ?thesis
  proof (elim disjE exE conjE)
    assume "w = None" "resp = Response 404 (ErrorBody ''Inquiry not found'')"
    then show ?thesis using inv by simp
  next
    fix inq inq'
    assume mem: "inq \<in> set (inquiries (readData file))" and same: "id' inq' = id' inq"
      and resp: "resp = Response 200 (Updated ''Inquiry updated'' inq')"
      and w: "w = Some ((readData file)\<lparr>inquiries :=
                  replace_first (id_matches (parseInt idParam)) inq' (inquiries (readData file))\<rparr>)"
    have "id' i \<le> lastId (readData file)"
      if "i \<in> set (replace_first (id_matches (parseInt idParam)) inq' (inquiries (readData file)))"
      for i
    proof -
      from that set_replace_first have "i = inq' \<or> i \<in> set (inquiries (readData file))"
        by fastforce
      then show ?thesis
        using inv mem same by (auto simp: ids_bounded_def)
    qed
    then show ?thesis
      using resp w by (simp add: ids_bounded_def)
  qed
next
  case (DeleteInquiry idParam)
  from h have "delete_admin_inquiry idParam file = (resp, w)"
    unfolding DeleteInquiry by simp
  from delete_admin_inquiry_cases [OF this] show ?thesis
    using inv by (auto simp: ids_bounded_def)
qed

lemma assigned_Cons_cases:
  "(\<exists>c m n. r = Response c (Submitted m n) \<and> assigned (r # rs) = n # assigned rs)
   \<or> ((\<forall>c m n. r \<noteq> Response c (Submitted m n)) \<and> assigned (r # rs) = assigned rs)"
proof (cases r)
  case (Response c p)
  then show ?thesis by (cases p) auto
qed

lemma serve_invariant:
  "ids_bounded g \<Longrightarrow> serve reqs g = (resps, g') \<Longrightarrow>
   ids_bounded g'
   \<and> lastId (readData g) \<le> lastId (readData g')
   \<and> (\<forall>n \<in> set (assigned resps). lastId (readData g) < n \<and> n \<le> lastId (readData g'))
   \<and> distinct (assigned resps)"
proof (induction reqs arbitrary: g resps g')
  case Nil
  then show ?case by simp
next
  case (Cons r reqs)
  obtain resp w where h: "handle r g = (resp, w)"
    by (cases "handle r g") auto
  obtain rest where rest: "serve reqs (written g w) = (rest, g')"
    and resps: "resps = resp # rest"
    using Cons.prems(2) h by (auto split: prod.splits)
  from handle_step [OF Cons.prems(1) h]
  have inv1: "ids_bounded (written g w)"
    and mono1: "lastId (readData g) \<le> lastId (readData (written g w))"
    and new1: "\<And>c m n. resp = Response c (Submitted m n) \<Longrightarrow>
        lastId (readData g) < n \<and> n \<le> lastId (readData (written g w))"
    by blast+
  from Cons.IH [OF inv1 rest]
  have inv2: "ids_bounded g'"
    and mono2: "lastId (readData (written g w)) \<le> lastId (readData g')"
    and new2: "\<forall>n \<in> set (assigned rest).
        lastId (readData (written g w)) < n \<and> n \<le> lastId (readData g')"
    and dist2: "distinct (assigned rest)"
    by blast+
  from assigned_Cons_cases [of resp rest] show ?case
  proof (elim disjE exE conjE)
    fix c m n
    assume r: "resp = Response c (Submitted m n)" and a: "assigned (resp # rest) = n # assigned rest"
    from new1 [OF r] have n: "lastId (readData g) < n" "n \<le> lastId (readData (written g w))"
      by simp_all
    have "n \<notin> set (assigned rest)"
      using new2 n by auto
    then show ?thesis
      unfolding resps a using inv2 mono1 mono2 new2 dist2 n by auto
  next
    assume a: "assigned (resp # rest) = assigned rest"
    show ?thesis
      unfolding resps a using inv2 mono1 mono2 new2 dist2 by auto
  qed
qed

text \<open>
  C5. Serve any sequence of submit, update and delete requests, starting from the empty
  document (the file as \<^verbatim>\<open>initDatabase\<close> creates it, or no file yet). In the file at
  the end no inquiry has an id above \<open>lastId\<close>, and the ids handed out along the way
  are pairwise distinct: none is handed out twice, whatever was deleted in between.
\<close>

theorem lastId_bounds_ids_never_reused:
  assumes start: "readData file0 = empty_document"
    and run: "serve reqs file0 = (resps, file)"
  shows "(\<forall>i \<in> set (inquiries (readData file)). id' i \<le> lastId (readData file))
       \<and> distinct (assigned resps)"
proof -
  have "ids_bounded file0"
    using start by (simp add: ids_bounded_def empty_document_def)
  from serve_invariant [OF this run] show ?thesis
    by (simp add: ids_bounded_def)
qed

theorem lastId_bounds_ids_never_reused_witness:
  "assigned (fst (serve
      [PostInquiry sample_body 10 10, PostInquiry sample_body 20 20, DeleteInquiry ''2'',
       PostInquiry sample_body 30 30, PutInquiry ''1'' (empty_body(''status'' := JStr ''booked'')) 40]
      (Some empty_document))) = [1, 2, 3]
   \<and> map id' (inquiries (readData (snd (serve
      [PostInquiry sample_body 10 10, PostInquiry sample_body 20 20, DeleteInquiry ''2'',
       PostInquiry sample_body 30 30, PutInquiry ''1'' (empty_body(''status'' := JStr ''booked'')) 40]
      (Some empty_document))))) = [1, 3]
   \<and> distinct (assigned (fst (serve
      [PostInquiry sample_body 10 10, PostInquiry sample_body 20 20, DeleteInquiry ''2'',
       PostInquiry sample_body 30 30, PutInquiry ''1'' (empty_body(''status'' := JStr ''booked'')) 40]
      (Some empty_document))))"
proof -
  let ?reqs = "[PostInquiry sample_body 10 10, PostInquiry sample_body 20 20, DeleteInquiry ''2'',
       PostInquiry sample_body 30 30, PutInquiry ''1'' (empty_body(''status'' := JStr ''booked'')) 40]"
  have start: "readData (Some empty_document) = empty_document"
    by (simp add: readData_def)
  have run: "serve ?reqs (Some empty_document) =
      (fst (serve ?reqs (Some empty_document)), snd (serve ?reqs (Some empty_document)))"
    by simp
  have a: "assigned (fst (serve ?reqs (Some empty_document))) = [1, 2, 3]"
    by code_simp
  have b: "map id' (inquiries (readData (snd (serve ?reqs (Some empty_document))))) = [1, 3]"
    by code_simp
  from lastId_bounds_ids_never_reused [OF start run]
  have c: "distinct (assigned (fst (serve ?reqs (Some empty_document))))"
    by (rule conjunct2)
  from a b c show ?thesis by (intro conjI)
qed

subsection \<open>Admin authentication\<close>

lemma js_split_nonempty: "js_split sep s \<noteq> []"
  by (induction s) (auto split: list.splits)

lemma js_split_no_sep: "sep \<notin> set u \<Longrightarrow> js_split sep u = [u]"
  by (induction u) auto

lemma js_split_at_sep: "sep \<notin> set u \<Longrightarrow> js_split sep (u @ sep # r) = u # js_split sep r"
  by (induction u) auto

lemma starts_with_split: "starts_with h p \<Longrightarrow> h = p @ drop (length p) h"
  unfolding starts_with_def by (metis append_take_drop_id)

lemma basic_header_token:
  assumes "starts_with h ''Basic ''"
  shows "\<exists>tok. at_index (js_split CHR '' '' h) 1 = Some tok"
proof -
  obtain r where h: "h = ''Basic'' @ CHR '' '' # r"
    using starts_with_split [OF assms] by auto
  have "js_split CHR '' '' h = ''Basic'' # js_split CHR '' '' r"
    unfolding h by (rule js_split_at_sep) simp
  then show ?thesis
    using js_split_nonempty [of "CHR '' ''" r] by (cases "js_split CHR '' '' r") (auto simp: at_index_def)
qed

lemma basic_header_payload:
  assumes "CHR '' '' \<notin> set payload"
  shows "starts_with (''Basic '' @ payload) ''Basic ''"
    and "at_index (js_split CHR '' '' (''Basic '' @ payload)) 1 = Some payload"
proof -
  show "starts_with (''Basic '' @ payload) ''Basic ''"
    by (simp add: starts_with_def)
  have "js_split CHR '' '' (''Basic'' @ CHR '' '' # payload) = ''Basic'' # js_split CHR '' '' payload"
    by (rule js_split_at_sep) simp
  then show "at_index (js_split CHR '' '' (''Basic '' @ payload)) 1 = Some payload"
    using js_split_no_sep [OF assms] by (simp add: at_index_def)
qed

text \<open>The two fields the handler compares, for credentials \<open>u:pw\<close> with no colon in
  \<open>u\<close>: the password is cut at the first colon of \<open>pw\<close>.\<close>

lemma credentials_fields:
  assumes "CHR '':'' \<notin> set u"
  shows "at_index (js_split CHR '':'' (u @ '':'' @ pw)) 0 = Some u"
    and "at_index (js_split CHR '':'' (u @ '':'' @ pw)) 1 = Some (takeWhile (\<lambda>c. c \<noteq> CHR '':'') pw)"
proof -
  have split: "js_split CHR '':'' (u @ '':'' @ pw) = u # js_split CHR '':'' pw"
    using js_split_at_sep [OF assms, of pw] by simp
  show "at_index (js_split CHR '':'' (u @ '':'' @ pw)) 0 = Some u"
    unfolding split by (simp add: at_index_def)
  have "\<exists>rest. js_split CHR '':'' pw = takeWhile (\<lambda>c. c \<noteq> CHR '':'') pw # rest"
    by (induction pw) (auto split: list.splits)
  then show "at_index (js_split CHR '':'' (u @ '':'' @ pw)) 1 = Some (takeWhile (\<lambda>c. c \<noteq> CHR '':'') pw)"
    unfolding split by (auto simp: at_index_def)
qed

lemma admin_auth_basic:
  assumes "CHR '' '' \<notin> set payload" "fromBase64 payload = u @ '':'' @ pw" "CHR '':'' \<notin> set u"
  shows "get_admin_inquiries fromBase64 env_user env_pass (Some (''Basic '' @ payload)) file =
     (if u \<noteq> env_or env_user ''Mehul20020''
         \<or> takeWhile (\<lambda>c. c \<noteq> CHR '':'') pw \<noteq> env_or env_pass ''Ninja2002@''
      then Response 401 (ErrorBody ''Invalid credentials'')
      else Response 200 (Listing (sort_key (\<lambda>i. - created_at i) (inquiries (readData file)))))"
proof -
  have "''Basic '' @ payload \<noteq> []" by simp
  then show ?thesis
    unfolding get_admin_inquiries_def
    using basic_header_payload [OF assms(1)] credentials_fields [OF assms(3), of pw] assms(2)
    by (auto simp: Let_def simp del: append.simps)
qed

lemma takeWhile_no_colon:
  "CHR '':'' \<notin> set pw \<Longrightarrow> takeWhile (\<lambda>c. c \<noteq> CHR '':'') pw = pw"
proof (induction pw)
  case Nil
  then show ?case by simp
next
  case (Cons a pw)
  then have "a \<noteq> CHR '':''" and "CHR '':'' \<notin> set pw" by auto
  then show ?case using Cons.IH by simp
qed

lemma admin_auth_outcomes:
  "get_admin_inquiries fromBase64 env_user env_pass authHeader file \<in>
     {Response 401 (ErrorBody ''Unauthorized''), Response 401 (ErrorBody ''Invalid credentials''),
      Response 200 (Listing (sort_key (\<lambda>i. - created_at i) (inquiries (readData file))))}"
proof (cases authHeader)
  case None
  then show ?thesis by (simp add: get_admin_inquiries_def)
next
  case (Some h)
  show ?thesis
  proof (cases "h = [] \<or> \<not> starts_with h ''Basic ''")
    case True
    then show ?thesis using Some by (auto simp: get_admin_inquiries_def)
  next
    case False
    then obtain tok where "at_index (js_split CHR '' '' h) 1 = Some tok"
      using basic_header_token by blast
    then show ?thesis
      using Some False by (auto simp: get_admin_inquiries_def Let_def)
  qed
qed

lemma js_split_head: "\<exists>extra. js_split sep s = takeWhile (\<lambda>c. c \<noteq> sep) s # extra"
  by (induction s) (auto split: list.splits)

text \<open>The token the handler decodes: what follows \<open>Basic \<close>, up to the next space.\<close>

lemma basic_header_rest:
  "starts_with (''Basic '' @ rest) ''Basic ''"
  "at_index (js_split CHR '' '' (''Basic '' @ rest)) 1 = Some (takeWhile (\<lambda>c. c \<noteq> CHR '' '') rest)"
proof -
  show "starts_with (''Basic '' @ rest) ''Basic ''"
    by (simp add: starts_with_def)
  obtain extra where extra: "js_split CHR '' '' rest = takeWhile (\<lambda>c. c \<noteq> CHR '' '') rest # extra"
    using js_split_head [of "CHR '' ''" rest] by blast
  have "js_split CHR '' '' (''Basic'' @ CHR '' '' # rest) = ''Basic'' # js_split CHR '' '' rest"
    by (rule js_split_at_sep) simp
  then show "at_index (js_split CHR '' '' (''Basic '' @ rest)) 1 =
      Some (takeWhile (\<lambda>c. c \<noteq> CHR '' '') rest)"
    unfolding extra by (simp add: at_index_def)
qed

lemma admin_auth_decoded:
  "get_admin_inquiries fromBase64 env_user env_pass (Some (''Basic '' @ rest)) file =
     (if at_index (js_split CHR '':'' (fromBase64 (takeWhile (\<lambda>c. c \<noteq> CHR '' '') rest))) 0
           \<noteq> Some (env_or env_user ''Mehul20020'')
         \<or> at_index (js_split CHR '':'' (fromBase64 (takeWhile (\<lambda>c. c \<noteq> CHR '' '') rest))) 1
           \<noteq> Some (env_or env_pass ''Ninja2002@'')
      then Response 401 (ErrorBody ''Invalid credentials'')
      else Response 200 (Listing (sort_key (\<lambda>i. - created_at i) (inquiries (readData file)))))"
proof -
  have "''Basic '' @ rest \<noteq> []" by simp
  then show ?thesis
    unfolding get_admin_inquiries_def
    using basic_header_rest [of rest]
    by (simp add: Let_def del: append.simps)
qed





text \<open>Credentials that match the configured secrets verbatim are accepted when neither
  secret contains a colon.\<close>

lemma admin_auth_accepts_colon_free:
  assumes "CHR '' '' \<notin> set payload"
    and "fromBase64 payload = env_or env_user ''Mehul20020'' @ '':'' @ env_or env_pass ''Ninja2002@''"
    and "CHR '':'' \<notin> set (env_or env_user ''Mehul20020'')"
    and "CHR '':'' \<notin> set (env_or env_pass ''Ninja2002@'')"
  shows "get_admin_inquiries fromBase64 env_user env_pass (Some (''Basic '' @ payload)) file =
     Response 200 (Listing (sort_key (\<lambda>i. - created_at i) (inquiries (readData file))))"
  using admin_auth_basic [of payload fromBase64 "env_or env_user ''Mehul20020''"
      "env_or env_pass ''Ninja2002@''" env_user env_pass "file", OF assms(1,2,3)]
  unfolding takeWhile_no_colon [OF assms(4)]
  by (simp only: simp_thms if_False)

text \<open>A configured password with a colon in it is never accepted, presented verbatim or
  not: the handler compares it with the part of the password before the first colon.\<close>

lemma takeWhile_colon_shorter:
  "CHR '':'' \<in> set pw \<Longrightarrow> takeWhile (\<lambda>c. c \<noteq> CHR '':'') pw \<noteq> pw"
  by (metis (mono_tags, lifting) set_takeWhileD)

lemma admin_auth_rejects_colon_password:
  assumes "CHR '' '' \<notin> set payload"
    and "fromBase64 payload = env_or env_user ''Mehul20020'' @ '':'' @ env_or env_pass ''Ninja2002@''"
    and "CHR '':'' \<notin> set (env_or env_user ''Mehul20020'')"
    and "CHR '':'' \<in> set (env_or env_pass ''Ninja2002@'')"
  shows "get_admin_inquiries fromBase64 env_user env_pass (Some (''Basic '' @ payload)) file =
     Response 401 (ErrorBody ''Invalid credentials'')"
  using admin_auth_basic [of payload fromBase64 "env_or env_user ''Mehul20020''"
      "env_or env_pass ''Ninja2002@''" env_user env_pass "file", OF assms(1,2,3)]
    takeWhile_colon_shorter [OF assms(4)]
  by (simp only: simp_thms if_True)

text \<open>The other face of the same split: with secrets free of colons, the configured
  password followed by a colon and any further text is let in.\<close>

lemma admin_auth_accepts_password_suffix:
  assumes "fromBase64 (takeWhile (\<lambda>c. c \<noteq> CHR '' '') rest) =
      env_or env_user ''Mehul20020'' @ '':'' @ (env_or env_pass ''Ninja2002@'' @ '':'' @ extra)"
    and "CHR '':'' \<notin> set (env_or env_user ''Mehul20020'')"
    and "CHR '':'' \<notin> set (env_or env_pass ''Ninja2002@'')"
  shows "get_admin_inquiries fromBase64 env_user env_pass (Some (''Basic '' @ rest)) file =
     Response 200 (Listing (sort_key (\<lambda>i. - created_at i) (inquiries (readData file))))"
proof -
  have "takeWhile (\<lambda>c. c \<noteq> CHR '':'') (env_or env_pass ''Ninja2002@'' @ CHR '':'' # extra) =
      takeWhile (\<lambda>c. c \<noteq> CHR '':'') (env_or env_pass ''Ninja2002@'')"
    by (rule takeWhile_tail) simp
  then have cut: "takeWhile (\<lambda>c. c \<noteq> CHR '':'') (env_or env_pass ''Ninja2002@'' @ '':'' @ extra) =
      env_or env_pass ''Ninja2002@''"
    unfolding takeWhile_no_colon [OF assms(3)] by simp
  show ?thesis
    unfolding admin_auth_decoded assms(1) credentials_fields [OF assms(2)] cut
    by (simp only: simp_thms if_False)
qed

lemma admin_auth_password_suffix_example:
  "b64decode ''TWVodWwyMDAyMDpOaW5qYTIwMDJAOmV4dHJh'' = ''Mehul20020:Ninja2002@:extra''
   \<and> get_admin_inquiries b64decode None None (Some ''Basic TWVodWwyMDAyMDpOaW5qYTIwMDJAOmV4dHJh'')
       None = Response 200 (Listing [])"
  by code_simp

text \<open>
  C9 at a configured password with a colon: with \<^verbatim>\<open>ADMIN_USER=admin\<close> and
  \<^verbatim>\<open>ADMIN_PASS=a:b\<close>, the header \<^verbatim>\<open>Basic YWRtaW46YTpi\<close> carries the base64 of
  \<^verbatim>\<open>admin:a:b\<close>, and the handler answers 401.
\<close>

theorem admin_auth_colon_password_example:
  "b64decode ''YWRtaW46YTpi'' = ''admin:a:b''
   \<and> get_admin_inquiries b64decode (Some ''admin'') (Some ''a:b'') (Some ''Basic YWRtaW46YTpi'') None =
     Response 401 (ErrorBody ''Invalid credentials'')"
  by code_simp

theorem admin_auth_colon_password_example_witness:
  "code (get_admin_inquiries b64decode (Some ''admin'') (Some ''a:b'')
      (Some ''Basic YWRtaW46YTpi'') None) = 401"
  by (simp only: admin_auth_colon_password_example [THEN conjunct2] response.sel)

end
